theory Spec2Isabelle
  imports Complex_Main "HOL-Library.Sublist"
begin

section \<open>Python values, exceptions and the service state (llm\_service.py)\<close>

text \<open>
  The embedding follows \<^verbatim>\<open>src/python/llm_service.py\<close>.

  Modelling conventions.
  \<^item> A Python \<^verbatim>\<open>float\<close> is modelled by the real number it denotes (NaN and the
    infinities have no counterpart, and rounding of float arithmetic is not modelled).
  \<^item> A Python \<^verbatim>\<open>str\<close> is a \<^typ>\<open>string\<close>; one \<^typ>\<open>char\<close> stands for one code point
    in the range 0..255.
  \<^item> Every \<^verbatim>\<open>raise\<close> is an \<open>Inl\<close> result; \<^verbatim>\<open>try/except Exception\<close> is \<open>try_except\<close>.
  \<^item> The attributes of \<^verbatim>\<open>self\<close> and the observable effects on the outside world
    (random draws consumed, provider requests issued, sleeps) are fields of the record
    \<open>state\<close>, passed explicitly.
  \<^item> What the outside world answers (the random generator's entropy, the providers'
    replies, the standard library's \<^verbatim>\<open>json.loads\<close> and \<^verbatim>\<open>float(str)\<close>) is a parameter,
    the record \<open>world\<close>.
\<close>

datatype pyvalue =
    PNone
  | PBool bool
  | PInt int
  | PFloat real
  | PStr string
  | PList "pyvalue list"
  | PDict "(string \<times> pyvalue) list"

datatype exn =
    NoClientsAvailable
  | ProviderCallError
  | EnvelopeError
  | JSONDecodeError
  | TypeError
  | ValueError
  | OverflowError
  | AttributeError
  | IndexError
  | ZeroDivisionError
  | RetryError

text \<open>\<^verbatim>\<open>@dataclass class Question\<close>; an option is a \<^verbatim>\<open>Dict[str, str]\<close>.\<close>

type_synonym option_dict = "(string \<times> string) list"

record Question =
  q_id :: int
  q_text :: string
  q_type :: string
  q_options :: "option_dict list"
  q_required :: bool

text \<open>
  \<^verbatim>\<open>@dataclass class Answer\<close>. The fields \<^verbatim>\<open>value\<close> and \<^verbatim>\<open>reasoning\<close> receive whatever
  the provider's JSON object holds, hence \<^typ>\<open>pyvalue\<close>.
\<close>

record Answer =
  question_id :: int
  answer_value :: pyvalue
  confidence :: real
  reasoning :: pyvalue

text \<open>What a provider request does: the request itself raises, the reply's envelope
  cannot be read (\<^verbatim>\<open>response.choices[0].message.content\<close> raises), or a content is read
  (\<^verbatim>\<open>None\<close> is possible).\<close>

datatype api_outcome =
    CallRaises
  | BadEnvelope
  | Content "string option"

record world =
  entropy :: "nat \<Rightarrow> nat"
  openai_create :: "nat \<Rightarrow> string \<Rightarrow> string \<Rightarrow> api_outcome"
  anthropic_create :: "nat \<Rightarrow> string \<Rightarrow> api_outcome"
  json_loads :: "string \<Rightarrow> pyvalue option"
  float_of_str :: "string \<Rightarrow> real option"

record state =
  openai_client :: bool
  anthropic_client :: bool
  total_cost :: real
  request_count :: int
  rng_pos :: nat
  api_calls :: nat
  slept :: "real list"

subsection \<open>Computations that may raise and change the state\<close>

type_synonym 'a prog = "state \<Rightarrow> (exn + 'a) \<times> state"

definition return_prog :: "'a \<Rightarrow> 'a prog" where
  "return_prog x = (\<lambda>s. (Inr x, s))"

definition raise_prog :: "exn \<Rightarrow> 'a prog" where
  "raise_prog e = (\<lambda>s. (Inl e, s))"

definition bind_prog :: "'a prog \<Rightarrow> ('a \<Rightarrow> 'b prog) \<Rightarrow> 'b prog" where
  "bind_prog m f = (\<lambda>s. case m s of (Inl e, s') \<Rightarrow> (Inl e, s') | (Inr a, s') \<Rightarrow> f a s')"

definition try_except :: "'a prog \<Rightarrow> (exn \<Rightarrow> 'a prog) \<Rightarrow> 'a prog" where
  "try_except m h = (\<lambda>s. case m s of (Inl e, s') \<Rightarrow> h e s' | (Inr a, s') \<Rightarrow> (Inr a, s'))"

definition modify :: "(state \<Rightarrow> state) \<Rightarrow> unit prog" where
  "modify f = (\<lambda>s. (Inr (), f s))"

subsection \<open>The \<^verbatim>\<open>random\<close> module\<close>

text \<open>
  Each call consumes one item of the world's entropy. \<^verbatim>\<open>random.random()\<close> returns a
  multiple of \<open>2\<^sup>-\<^sup>5\<^sup>3\<close> in \<open>[0, 1)\<close>; \<^verbatim>\<open>uniform(a, b)\<close> is \<^verbatim>\<open>a + (b - a) * random()\<close>;
  \<^verbatim>\<open>choice(seq)\<close> raises \<^verbatim>\<open>IndexError\<close> on an empty sequence and otherwise indexes it
  below its length; \<^verbatim>\<open>randint(a, b)\<close> is \<open>a\<close> plus a draw below \<open>b - a + 1\<close>.
\<close>

definition next_entropy :: "world \<Rightarrow> nat prog" where
  "next_entropy w = (\<lambda>s. (Inr (entropy w (rng_pos s)), s\<lparr>rng_pos := Suc (rng_pos s)\<rparr>))"

definition random_random :: "world \<Rightarrow> real prog" where
  "random_random w =
     bind_prog (next_entropy w) (\<lambda>r. return_prog (real (r mod 2 ^ 53) / 2 ^ 53))"

definition random_uniform :: "world \<Rightarrow> real \<Rightarrow> real \<Rightarrow> real prog" where
  "random_uniform w a b =
     bind_prog (random_random w) (\<lambda>u. return_prog (a + (b - a) * u))"

definition random_choice :: "world \<Rightarrow> 'a list \<Rightarrow> 'a prog" where
  "random_choice w xs =
     (if xs = [] then raise_prog IndexError
      else bind_prog (next_entropy w) (\<lambda>r. return_prog (xs ! (r mod length xs))))"

definition random_randint :: "world \<Rightarrow> int \<Rightarrow> int \<Rightarrow> int prog" where
  "random_randint w a b =
     bind_prog (next_entropy w) (\<lambda>r. return_prog (a + int (r mod nat (b - a + 1))))"

subsection \<open>Strings and dictionaries\<close>

text \<open>\<^verbatim>\<open>d.get(k, default)\<close> on a dictionary given as an association list.\<close>

definition dict_get :: "('k \<times> 'v) list \<Rightarrow> 'k \<Rightarrow> 'v \<Rightarrow> 'v" where
  "dict_get d k dflt = (case map_of d k of Some v \<Rightarrow> v | None \<Rightarrow> dflt)"

text \<open>\<^verbatim>\<open>xs[i]\<close> for a non-negative index.\<close>

definition index_py :: "'a list \<Rightarrow> nat \<Rightarrow> 'a prog" where
  "index_py xs i = (if i < length xs then return_prog (xs ! i) else raise_prog IndexError)"

definition digit_char :: "nat \<Rightarrow> char" where
  "digit_char d = char_of (48 + d)"

fun str_nat :: "nat \<Rightarrow> string" where
  "str_nat n = (if n < 10 then [digit_char n] else str_nat (n div 10) @ [digit_char (n mod 10)])"

declare str_nat.simps [simp del]

text \<open>\<^verbatim>\<open>str(i)\<close> for an integer.\<close>

definition str_int :: "int \<Rightarrow> string" where
  "str_int i = (if i < 0 then CHR ''-'' # str_nat (nat (- i)) else str_nat (nat i))"

text \<open>\<^verbatim>\<open>str.lower()\<close> on code points 0..255.\<close>

definition lower_char :: "char \<Rightarrow> char" where
  "lower_char c =
     (let n = (of_char c :: nat)
      in if (65 \<le> n \<and> n \<le> 90) \<or> (192 \<le> n \<and> n \<le> 222 \<and> n \<noteq> 215)
         then char_of (n + 32) else c)"

definition lower :: "string \<Rightarrow> string" where
  "lower s = map lower_char s"

text \<open>\<^verbatim>\<open>str.isspace()\<close> on code points 0..255, and \<^verbatim>\<open>str.strip()\<close>.\<close>

definition is_space :: "char \<Rightarrow> bool" where
  "is_space c =
     (let n = (of_char c :: nat)
      in (9 \<le> n \<and> n \<le> 13) \<or> (28 \<le> n \<and> n \<le> 32) \<or> n = 133 \<or> n = 160)"

definition strip :: "string \<Rightarrow> string" where
  "strip s = rev (dropWhile is_space (rev (dropWhile is_space s)))"

text \<open>\<^verbatim>\<open>sub in s\<close> for strings.\<close>

fun str_contains :: "string \<Rightarrow> string \<Rightarrow> bool" where
  "str_contains sub [] = (sub = [])"
| "str_contains sub (c # cs) = (prefix sub (c # cs) \<or> str_contains sub cs)"

section \<open>The Fallback Synthesizer\<close>

definition fallback_phrases :: "string list" where
  "fallback_phrases =
     [''I'm not sure about this'',
      ''I don't have a strong opinion'',
      ''I'd need to think about this more'',
      ''Not really sure'']"

text \<open>
  \<^verbatim>\<open>random.choice(question.options).get('value', question.options[0].get('label', ''))\<close>:
  the choice is made first, then the default argument is evaluated.
\<close>

definition random_option_value :: "world \<Rightarrow> Question \<Rightarrow> string prog" where
  "random_option_value w q =
     bind_prog (random_choice w (q_options q)) (\<lambda>opt.
     bind_prog (index_py (q_options q) 0) (\<lambda>first.
     return_prog (dict_get opt ''value'' (dict_get first ''label'' []))))"

text \<open>The \<^verbatim>\<open>if/elif/else\<close> of \<^verbatim>\<open>_generate_fallback_answer\<close> that computes \<^verbatim>\<open>value\<close>.\<close>

definition fallback_value :: "world \<Rightarrow> Question \<Rightarrow> string prog" where
  "fallback_value w q =
     (if q_type q = ''yes-no'' then random_choice w [''yes'', ''no'']
      else if q_type q \<in> set [''single-choice'', ''multiple-choice''] \<and> q_options q \<noteq> []
           then random_option_value w q
      else if q_type q = ''rating''
           then bind_prog (random_randint w 3 7) (\<lambda>n. return_prog (str_int n))
      else random_choice w fallback_phrases)"

definition generate_fallback_answer :: "world \<Rightarrow> Question \<Rightarrow> Answer prog" where
  "generate_fallback_answer w q =
     bind_prog (fallback_value w q) (\<lambda>v.
     return_prog
       \<lparr>question_id = q_id q, answer_value = PStr v, confidence = 0.3,
        reasoning = PStr ''Fallback answer due to API failure''\<rparr>)"

section \<open>The Humanizer\<close>

definition uncertainty_patterns :: "string list" where
  "uncertainty_patterns =
     [''I'm not entirely sure, but I think'',
      ''If I had to guess, I'd say'',
      ''From what I remember'',
      ''I believe'',
      ''As far as I know'']"

definition hedging_patterns :: "string list" where
  "hedging_patterns =
     [''probably'', ''likely'', ''I suppose'', ''perhaps'',
      ''it seems to me'', ''in my opinion'', ''I'd say'']"

text \<open>The two text edits of \<^verbatim>\<open>make_answer_human_like\<close>, applied to a \<^verbatim>\<open>str\<close> value.\<close>

definition add_uncertainty :: "world \<Rightarrow> string \<Rightarrow> string prog" where
  "add_uncertainty w v =
     bind_prog (random_random w) (\<lambda>u.
       if u < 0.3
       then bind_prog (random_choice w uncertainty_patterns) (\<lambda>pattern.
              return_prog (pattern @ '' '' @ lower v))
       else return_prog v)"

definition add_hedging :: "world \<Rightarrow> string \<Rightarrow> string prog" where
  "add_hedging w v =
     bind_prog (random_random w) (\<lambda>u.
       if u < 0.2
       then bind_prog (random_choice w hedging_patterns) (\<lambda>hedge.
              return_prog (v @ '', '' @ hedge))
       else return_prog v)"

definition humanize_value :: "world \<Rightarrow> pyvalue \<Rightarrow> Question \<Rightarrow> pyvalue prog" where
  "humanize_value w v q =
     (case v of
        PStr t \<Rightarrow>
          if q_type q = ''text''
          then bind_prog (add_uncertainty w t) (\<lambda>t1.
               bind_prog (add_hedging w t1) (\<lambda>t2. return_prog (PStr t2)))
          else return_prog v
      | _ \<Rightarrow> return_prog v)"

definition make_answer_human_like :: "world \<Rightarrow> Answer \<Rightarrow> Question \<Rightarrow> Answer prog" where
  "make_answer_human_like w answer q =
     bind_prog (humanize_value w (answer_value answer) q) (\<lambda>v.
     bind_prog (random_uniform w 0.1 0.3) (\<lambda>d.
     return_prog (answer\<lparr>answer_value := v, confidence := max 0.2 (confidence answer - d)\<rparr>)))"

section \<open>The Prompt Builder\<close>

definition newline :: string where
  "newline = [char_of (10 :: nat)]"

definition get_system_prompt :: string where
  \<open>get_system_prompt =
     ''You are answering poll/survey questions as a typical human would. '' @ newline @
     newline @
     ''IMPORTANT RULES:'' @ newline @
     ''1. Give realistic, human-like answers - avoid showing superhuman knowledge'' @ newline @
     ''2. For impossible questions (like listing all mayors of a country), respond with uncertainty'' @ newline @
     ''3. Add natural human speech patterns like "I think", "probably", "not sure"'' @ newline @
     ''4. Keep answers concise and natural'' @ newline @
     ''5. For multiple choice, pick the most reasonable option'' @ newline @
     ''6. For rating questions, avoid extreme scores unless warranted'' @ newline @
     ''7. Show some uncertainty - humans don't know everything'' @ newline @
     newline @
     ''Return your answer in this exact JSON format:'' @ newline @
     ''{'' @ newline @
     ''    "answer": "your answer here",'' @ newline @
     ''    "confidence": 0.8,'' @ newline @
     ''    "reasoning": "brief explanation"'' @ newline @
     ''}''\<close>

text \<open>The lines of the options block, numbered from \<open>i\<close>.\<close>

fun option_lines :: "nat \<Rightarrow> option_dict list \<Rightarrow> string" where
  "option_lines i [] = []"
| "option_lines i (opt # opts) =
     str_nat i @ ''. '' @ dict_get opt ''label'' (dict_get opt ''value'' []) @ newline @
     option_lines (Suc i) opts"

definition build_prompt :: "Question \<Rightarrow> string option \<Rightarrow> string" where
  "build_prompt q context =
     ''Question: '' @ q_text q @ newline @
     ''Type: '' @ q_type q @ newline @
     (if q_options q \<noteq> [] then ''Options:'' @ newline @ option_lines 1 (q_options q) else []) @
     (case context of
        Some c \<Rightarrow> if c \<noteq> [] then newline @ ''Context: '' @ c @ newline else []
      | None \<Rightarrow> []) @
     newline @ ''Please provide a human-like answer.''"

section \<open>The Response Parser\<close>

text \<open>
  \<^verbatim>\<open>re.search(r'\{.*\}', response, re.DOTALL)\<close>: the match runs from the first \<open>{\<close> to
  the last \<open>}\<close> after it; there is none when no \<open>}\<close> follows the first \<open>{\<close>.
\<close>

definition re_search_braces :: "string \<Rightarrow> string option" where
  "re_search_braces response =
     (let from_open = dropWhile (\<lambda>c. c \<noteq> CHR ''{'') response;
          m = rev (dropWhile (\<lambda>c. c \<noteq> CHR ''}'') (rev from_open))
      in if m = [] then None else Some m)"

text \<open>
  \<^verbatim>\<open>float(x)\<close>. An \<^verbatim>\<open>int\<close> of magnitude \<open>2\<^sup>1\<^sup>0\<^sup>2\<^sup>4 - 2\<^sup>9\<^sup>7\<^sup>0\<close> or more raises
  \<^verbatim>\<open>OverflowError\<close>; a \<^verbatim>\<open>str\<close> is converted by the library (\<^verbatim>\<open>ValueError\<close> when it is not
  a number); \<^verbatim>\<open>None\<close>, lists and dicts raise \<^verbatim>\<open>TypeError\<close>.
\<close>

definition py_float :: "world \<Rightarrow> pyvalue \<Rightarrow> real prog" where
  "py_float w v =
     (case v of
        PFloat r \<Rightarrow> return_prog r
      | PInt i \<Rightarrow>
          if \<bar>i\<bar> < 2 ^ 1024 - 2 ^ 970 then return_prog (of_int i) else raise_prog OverflowError
      | PBool b \<Rightarrow> return_prog (if b then 1 else 0)
      | PStr t \<Rightarrow>
          (case float_of_str w t of Some r \<Rightarrow> return_prog r | None \<Rightarrow> raise_prog ValueError)
      | PNone \<Rightarrow> raise_prog TypeError
      | PList _ \<Rightarrow> raise_prog TypeError
      | PDict _ \<Rightarrow> raise_prog TypeError)"

text \<open>
  \<^verbatim>\<open>data = json.loads(json_match.group())\<close> and the \<^verbatim>\<open>Answer\<close> built from \<^verbatim>\<open>data\<close>.
  \<open>PDict d\<close> stands for the dictionary \<open>map_of d\<close>; a value without \<^verbatim>\<open>.get\<close> raises
  \<^verbatim>\<open>AttributeError\<close>.
\<close>

definition answer_from_json :: "world \<Rightarrow> Question \<Rightarrow> string \<Rightarrow> Answer prog" where
  "answer_from_json w q m =
     (case json_loads w m of
        None \<Rightarrow> raise_prog JSONDecodeError
      | Some (PDict data) \<Rightarrow>
          bind_prog (py_float w (dict_get data ''confidence'' (PFloat 0.7))) (\<lambda>c.
          return_prog
            \<lparr>question_id = q_id q,
             answer_value = dict_get data ''answer'' (PStr []),
             confidence = c,
             reasoning = dict_get data ''reasoning'' (PStr [])\<rparr>)
      | Some _ \<Rightarrow> raise_prog AttributeError)"

text \<open>\<^verbatim>\<open>\w\<close> on code points 0..255 (letters, digits, numeric characters, underscore).\<close>

definition is_word_char :: "char \<Rightarrow> bool" where
  "is_word_char c =
     (let n = (of_char c :: nat)
      in (48 \<le> n \<and> n \<le> 57) \<or> (65 \<le> n \<and> n \<le> 90) \<or> n = 95 \<or> (97 \<le> n \<and> n \<le> 122) \<or>
         n = 170 \<or> n = 178 \<or> n = 179 \<or> n = 181 \<or> n = 185 \<or> n = 186 \<or>
         (188 \<le> n \<and> n \<le> 190) \<or> (192 \<le> n \<and> n \<le> 214) \<or> (216 \<le> n \<and> n \<le> 246) \<or>
         (248 \<le> n \<and> n \<le> 255))"

definition is_digit_1_9 :: "char \<Rightarrow> bool" where
  "is_digit_1_9 c = (let n = (of_char c :: nat) in 49 \<le> n \<and> n \<le> 57)"

text \<open>A word boundary after the matched digits: the end of the text or a non-word
  character.\<close>

definition boundary_before :: "string \<Rightarrow> bool" where
  "boundary_before rest = (case rest of [] \<Rightarrow> True | c # _ \<Rightarrow> \<not> is_word_char c)"

text \<open>
  \<^verbatim>\<open>re.findall(r'\b([1-9]|10)\b', text)\<close>, first element: the leftmost position that is
  not preceded by a word character, where one digit 1-9 or else the digits 10 are
  followed by a word boundary. \<open>prev_word\<close> tells whether the previous character is a
  word character.
\<close>

fun first_rating :: "bool \<Rightarrow> string \<Rightarrow> string option" where
  "first_rating prev_word [] = None"
| "first_rating prev_word (c # cs) =
     (if \<not> prev_word \<and> is_digit_1_9 c \<and> boundary_before cs then Some [c]
      else if \<not> prev_word \<and> c = CHR ''1'' \<and> prefix ''0'' cs \<and> boundary_before (tl cs)
           then Some ''10''
      else first_rating (is_word_char c) cs)"

text \<open>The \<^verbatim>\<open>for option in question.options\<close> loop of the choice branch.\<close>

fun match_option :: "option_dict list \<Rightarrow> string \<Rightarrow> string option" where
  "match_option [] text = None"
| "match_option (opt # opts) text =
     (if str_contains (lower (dict_get opt ''label'' (dict_get opt ''value'' []))) (lower text)
      then Some (dict_get opt ''value'' (dict_get opt ''label'' []))
      else match_option opts text)"

definition affirmative_words :: "string list" where
  "affirmative_words = [''yes'', ''true'', ''agree'', ''correct'']"

definition negative_words :: "string list" where
  "negative_words = [''no'', ''false'', ''disagree'', ''incorrect'']"

definition extract_answer_from_text :: "world \<Rightarrow> Question \<Rightarrow> string \<Rightarrow> string prog" where
  "extract_answer_from_text w q raw =
     (let text = strip raw
      in if q_type q = ''yes-no'' then
           (if list_ex (\<lambda>word. str_contains word (lower text)) affirmative_words
              then return_prog ''yes''
            else if list_ex (\<lambda>word. str_contains word (lower text)) negative_words
              then return_prog ''no''
            else random_choice w [''yes'', ''no''])
         else if q_type q \<in> set [''single-choice'', ''multiple-choice''] \<and> q_options q \<noteq> [] then
           (case match_option (q_options q) text of
              Some v \<Rightarrow> return_prog v
            | None \<Rightarrow> random_option_value w q)
         else if q_type q = ''rating'' then
           (case first_rating False text of
              Some n \<Rightarrow> return_prog n
            | None \<Rightarrow> bind_prog (random_randint w 3 7) (\<lambda>n. return_prog (str_int n)))
         else if 200 < length text then return_prog (take 200 text @ ''...'')
         else return_prog (if text \<noteq> [] then text else ''I'm not sure about this one.''))"

text \<open>The body of the \<^verbatim>\<open>try\<close> in \<^verbatim>\<open>_parse_llm_response\<close>; \<^verbatim>\<open>'{' in None\<close> raises
  \<^verbatim>\<open>TypeError\<close>.\<close>

definition text_path :: "world \<Rightarrow> Question \<Rightarrow> string \<Rightarrow> Answer prog" where
  "text_path w q r =
     bind_prog (extract_answer_from_text w q r) (\<lambda>v.
     return_prog
       \<lparr>question_id = q_id q, answer_value = PStr v, confidence = 0.7,
        reasoning = PStr ''Parsed from text response''\<rparr>)"

definition parse_body :: "world \<Rightarrow> Question \<Rightarrow> string option \<Rightarrow> Answer prog" where
  "parse_body w q response =
     (case response of
        None \<Rightarrow> raise_prog TypeError
      | Some r \<Rightarrow>
          if CHR ''{'' \<in> set r \<and> CHR ''}'' \<in> set r then
            (case re_search_braces r of
               Some m \<Rightarrow> answer_from_json w q m
             | None \<Rightarrow> text_path w q r)
          else text_path w q r)"

definition parse_llm_response :: "world \<Rightarrow> Question \<Rightarrow> string option \<Rightarrow> Answer prog" where
  "parse_llm_response w q response =
     try_except (parse_body w q response) (\<lambda>e. generate_fallback_answer w q)"

section \<open>The Provider Adapter\<close>

text \<open>A provider request: the world's reply to the request with the current number, and
  one more request counted.\<close>

definition openai_request :: "world \<Rightarrow> string \<Rightarrow> string \<Rightarrow> api_outcome prog" where
  "openai_request w sys usr =
     (\<lambda>s. (Inr (openai_create w (api_calls s) sys usr), s\<lparr>api_calls := Suc (api_calls s)\<rparr>))"

definition anthropic_request :: "world \<Rightarrow> string \<Rightarrow> api_outcome prog" where
  "anthropic_request w usr =
     (\<lambda>s. (Inr (anthropic_create w (api_calls s) usr), s\<lparr>api_calls := Suc (api_calls s)\<rparr>))"

text \<open>What follows the request in both adapters: the cost is added once the request has
  returned, then the content is read and parsed. The \<^verbatim>\<open>except\<close> clause re-raises.\<close>

definition consume_outcome :: "world \<Rightarrow> Question \<Rightarrow> real \<Rightarrow> api_outcome \<Rightarrow> Answer prog" where
  "consume_outcome w q cost outcome =
     (case outcome of
        CallRaises \<Rightarrow> raise_prog ProviderCallError
      | BadEnvelope \<Rightarrow>
          bind_prog (modify (\<lambda>s. s\<lparr>total_cost := total_cost s + cost\<rparr>)) (\<lambda>_.
          raise_prog EnvelopeError)
      | Content content \<Rightarrow>
          bind_prog (modify (\<lambda>s. s\<lparr>total_cost := total_cost s + cost\<rparr>)) (\<lambda>_.
          parse_llm_response w q content))"

definition generate_openai_answer :: "world \<Rightarrow> Question \<Rightarrow> string option \<Rightarrow> Answer prog" where
  "generate_openai_answer w q context =
     try_except
       (bind_prog (openai_request w get_system_prompt (build_prompt q context))
          (consume_outcome w q 0.002))
       (\<lambda>e. raise_prog e)"

definition generate_anthropic_answer :: "world \<Rightarrow> Question \<Rightarrow> string option \<Rightarrow> Answer prog" where
  "generate_anthropic_answer w q context =
     try_except
       (bind_prog
          (anthropic_request w (get_system_prompt @ newline @ newline @ build_prompt q context))
          (consume_outcome w q 0.001))
       (\<lambda>e. raise_prog e)"

text \<open>The \<^verbatim>\<open>if/elif/else\<close> that selects the provider in \<^verbatim>\<open>generate_answer\<close>.\<close>

definition select_provider :: "world \<Rightarrow> Question \<Rightarrow> string option \<Rightarrow> Answer prog" where
  "select_provider w q context =
     (\<lambda>s. if openai_client s then generate_openai_answer w q context s
          else if anthropic_client s then generate_anthropic_answer w q context s
          else raise_prog NoClientsAvailable s)"

text \<open>The body of \<^verbatim>\<open>generate_answer\<close>, under the decorator.\<close>

definition generate_answer_body :: "world \<Rightarrow> Question \<Rightarrow> string option \<Rightarrow> Answer prog" where
  "generate_answer_body w q context =
     try_except
       (bind_prog (select_provider w q context) (\<lambda>response.
        bind_prog (modify (\<lambda>s. s\<lparr>request_count := request_count s + 1\<rparr>)) (\<lambda>_.
        return_prog response)))
       (\<lambda>e. generate_fallback_answer w q)"

text \<open>
  The decorator \<^verbatim>\<open>@retry(stop=stop_after_attempt(3), wait=wait_exponential(multiplier=1,
  min=4, max=10))\<close> of the tenacity library: the decorated function is called again after
  it has raised, with a sleep before each new attempt, and \<^verbatim>\<open>RetryError\<close> is raised when
  the last attempt has raised. A call that returns is never repeated.
\<close>

definition wait_exponential :: "real \<Rightarrow> real \<Rightarrow> real \<Rightarrow> nat \<Rightarrow> real" where
  "wait_exponential multiplier lo hi attempt =
     max (max 0 lo) (min (multiplier * 2 ^ (attempt - 1)) hi)"

definition sleep :: "real \<Rightarrow> unit prog" where
  "sleep d = modify (\<lambda>s. s\<lparr>slept := slept s @ [d]\<rparr>)"

fun retry :: "nat \<Rightarrow> nat \<Rightarrow> 'a prog \<Rightarrow> 'a prog" where
  "retry 0 attempt body = raise_prog RetryError"
| "retry (Suc left) attempt body =
     try_except body
       (\<lambda>e. if left = 0 then raise_prog RetryError
            else bind_prog (sleep (wait_exponential 1 4 10 attempt)) (\<lambda>_.
                 retry left (Suc attempt) body))"

definition generate_answer :: "world \<Rightarrow> Question \<Rightarrow> string option \<Rightarrow> Answer prog" where
  "generate_answer w q context = retry 3 1 (generate_answer_body w q context)"

section \<open>The Batch Orchestrator\<close>

text \<open>
  \<^verbatim>\<open>asyncio.gather(*tasks, return_exceptions=True)\<close>: one result per task, in the order of
  the tasks, an exception being a result like any other. The tasks of a batch run one
  after the other in task order (the adapters hold no \<^verbatim>\<open>await\<close>).
\<close>

fun gather :: "'a prog list \<Rightarrow> (exn + 'a) list prog" where
  "gather [] = return_prog []"
| "gather (t # ts) =
     (\<lambda>s. case t s of (r, s') \<Rightarrow> bind_prog (gather ts) (\<lambda>rs. return_prog (r # rs)) s')"

text \<open>The loop \<^verbatim>\<open>for j, result in enumerate(batch_answers)\<close>, from index \<open>j\<close> on.\<close>

fun humanize_results ::
  "world \<Rightarrow> Question list \<Rightarrow> nat \<Rightarrow> (exn + Answer) list \<Rightarrow> Answer list \<Rightarrow> Answer list prog" where
  "humanize_results w batch j [] answers = return_prog answers"
| "humanize_results w batch j (result # rest) answers =
     bind_prog
       (case result of
          Inl e \<Rightarrow> bind_prog (index_py batch j) (generate_fallback_answer w)
        | Inr a \<Rightarrow> return_prog a) (\<lambda>result'.
     bind_prog (index_py batch j) (\<lambda>qj.
     bind_prog (make_answer_human_like w result' qj) (\<lambda>result''.
     humanize_results w batch (Suc j) rest (answers @ [result'']))))"

text \<open>The loop \<^verbatim>\<open>for i in range(0, len(questions), batch_size)\<close> with \<^verbatim>\<open>batch_size = 3\<close>,
  from index \<open>i\<close> on.\<close>

function process_batches ::
  "world \<Rightarrow> Question list \<Rightarrow> string option \<Rightarrow> nat \<Rightarrow> Answer list \<Rightarrow> Answer list prog" where
  "process_batches w questions context i answers =
     (if i < length questions then
        bind_prog (gather (map (\<lambda>q. generate_answer w q context) (take 3 (drop i questions))))
          (\<lambda>batch_answers.
        bind_prog (humanize_results w (take 3 (drop i questions)) 0 batch_answers answers)
          (\<lambda>answers'.
        bind_prog
          (if i + 3 < length questions
           then bind_prog (random_uniform w 1 3) sleep
           else return_prog ())
          (\<lambda>_. process_batches w questions context (i + 3) answers')))
      else return_prog answers)"
  by pat_completeness auto
termination
  by (relation "measure (\<lambda>(w, questions, context, i, answers). length questions - i)") auto

definition process_poll_questions ::
  "world \<Rightarrow> Question list \<Rightarrow> string option \<Rightarrow> Answer list prog" where
  "process_poll_questions w questions context = process_batches w questions context 0 []"

section \<open>Service statistics\<close>

text \<open>\<^verbatim>\<open>round(x, ndigits)\<close>: to the nearest multiple of \<open>10\<^sup>-\<^sup>n\<close>, ties to the even one.\<close>

definition py_round :: "real \<Rightarrow> nat \<Rightarrow> real" where
  "py_round x n =
     (let y = x * 10 ^ n; f = \<lfloor>y\<rfloor>; r = y - of_int f
      in (if r < 1 / 2 then of_int f
          else if 1 / 2 < r then of_int (f + 1)
          else if even f then of_int f else of_int (f + 1)) / 10 ^ n)"

text \<open>\<^verbatim>\<open>x / n\<close> for a float and an int.\<close>

definition truediv :: "real \<Rightarrow> int \<Rightarrow> exn + real" where
  "truediv x n = (if n = 0 then Inl ZeroDivisionError else Inr (x / of_int n))"

record stats =
  total_requests :: int
  stats_total_cost :: real
  avg_cost_per_request :: real
  openai_available :: bool
  anthropic_available :: bool

definition get_stats :: "state \<Rightarrow> exn + stats" where
  "get_stats s =
     (case truediv (total_cost s) (max 1 (request_count s)) of
        Inl e \<Rightarrow> Inl e
      | Inr avg \<Rightarrow>
          Inr \<lparr>total_requests = request_count s,
               stats_total_cost = py_round (total_cost s) 4,
               avg_cost_per_request = py_round avg 4,
               openai_available = openai_client s,
               anthropic_available = anthropic_client s\<rparr>)"

definition reset_stats :: "state \<Rightarrow> state" where
  "reset_stats s = s\<lparr>total_cost := 0, request_count := 0\<rparr>"

section \<open>Specification predicates and example data\<close>

text \<open>\<open>returns m s P\<close>: from state \<open>s\<close> the computation \<open>m\<close> returns normally, with a
  result and a final state that satisfy \<open>P\<close>.\<close>

definition returns :: "'a prog \<Rightarrow> state \<Rightarrow> ('a \<Rightarrow> state \<Rightarrow> bool) \<Rightarrow> bool" where
  "returns m s P = (case m s of (Inr a, s') \<Rightarrow> P a s' | (Inl e, s') \<Rightarrow> False)"

text \<open>A service constructed with the OpenAI key only, and one constructed with no key.\<close>

definition openai_state :: state where
  "openai_state =
     \<lparr>openai_client = True, anthropic_client = False, total_cost = 0, request_count = 0,
      rng_pos = 0, api_calls = 0, slept = []\<rparr>"

definition degraded_state :: state where
  "degraded_state =
     \<lparr>openai_client = False, anthropic_client = False, total_cost = 0, request_count = 0,
      rng_pos = 0, api_calls = 0, slept = []\<rparr>"

text \<open>The first test question of the source's \<^verbatim>\<open>test_service\<close>.\<close>

definition pizza_question :: Question where
  "pizza_question =
     \<lparr>q_id = 1, q_text = ''Do you like pizza?'', q_type = ''yes-no'',
      q_options = [[(''value'', ''yes''), (''label'', ''Yes'')],
                   [(''value'', ''no''), (''label'', ''No'')]],
      q_required = True\<rparr>"

text \<open>A world whose providers always fail, whose entropy is constantly 0 and whose
  library parsers reject every text.\<close>

definition quiet_world :: world where
  "quiet_world =
     \<lparr>entropy = (\<lambda>k. 0),
      openai_create = (\<lambda>k sys usr. CallRaises),
      anthropic_create = (\<lambda>k usr. CallRaises),
      json_loads = (\<lambda>t. None),
      float_of_str = (\<lambda>t. None)\<rparr>"

text \<open>An Answer as the free-text path builds it, and one with a low confidence as a
  provider's JSON object may state it.\<close>

definition parsed_answer :: Answer where
  "parsed_answer =
     \<lparr>question_id = 1, answer_value = PStr ''no'', confidence = 0.7,
      reasoning = PStr ''Parsed from text response''\<rparr>"

definition unsure_answer :: Answer where
  "unsure_answer =
     \<lparr>question_id = 1, answer_value = PStr ''yes'', confidence = 0.1,
      reasoning = PStr ''just a guess''\<rparr>"

text \<open>The state after one request that returned with an unreadable envelope: the cost is
  counted, the request is not.\<close>

definition billed_state :: state where
  "billed_state =
     \<lparr>openai_client = True, anthropic_client = False, total_cost = 0.002, request_count = 0,
      rng_pos = 1, api_calls = 1, slept = []\<rparr>"

text \<open>A world whose first OpenAI request fails and whose later requests succeed.\<close>

definition flaky_world :: world where
  "flaky_world =
     \<lparr>entropy = (\<lambda>k. 0),
      openai_create = (\<lambda>k sys usr. if k = 0 then CallRaises else Content (Some ''yes'')),
      anthropic_create = (\<lambda>k usr. CallRaises),
      json_loads = (\<lambda>t. None),
      float_of_str = (\<lambda>t. None)\<rparr>"



section \<open>Computations that return normally\<close>

lemma returns_iff: "returns m s P \<longleftrightarrow> (\<exists>a s'. m s = (Inr a, s') \<and> P a s')"
  by (auto simp: returns_def split: prod.splits sum.splits)

lemma returns_return [simp]: "returns (return_prog x) s P = P x s"
  by (simp add: returns_def return_prog_def)

lemma returns_raise [simp]: "returns (raise_prog e) s P = False"
  by (simp add: returns_def raise_prog_def)

lemma returns_bind: "returns (bind_prog m f) s P = returns m s (\<lambda>a s'. returns (f a) s' P)"
  by (simp add: returns_def bind_prog_def split: prod.splits sum.splits)

lemma returns_mono: "returns m s P \<Longrightarrow> (\<And>a s'. P a s' \<Longrightarrow> Q a s') \<Longrightarrow> returns m s Q"
  by (auto simp: returns_def split: prod.splits sum.splits)

lemma returns_try_except:
  "returns (try_except m h) s P =
     (case m s of (Inr a, s') \<Rightarrow> P a s' | (Inl e, s') \<Rightarrow> returns (h e) s' P)"
  by (simp add: returns_def try_except_def split: prod.splits sum.splits)

lemma returns_next_entropy [simp]:
  "returns (next_entropy w) s P = P (entropy w (rng_pos s)) (s\<lparr>rng_pos := Suc (rng_pos s)\<rparr>)"
  by (simp add: returns_def next_entropy_def)

lemma returns_random_random:
  "returns (random_random w) s (\<lambda>u s'. 0 \<le> u \<and> u < 1)"
  by (simp add: random_random_def returns_bind)

lemma returns_random_uniform:
  assumes "a \<le> b"
  shows "returns (random_uniform w a b) s (\<lambda>d s'. a \<le> d \<and> d \<le> b)"
proof -
  have "returns (random_random w) s (\<lambda>u s'. returns (return_prog (a + (b - a) * u)) s' (\<lambda>d s'. a \<le> d \<and> d \<le> b))"
  proof (rule returns_mono [OF returns_random_random])
    fix u :: real and s'
    assume u: "0 \<le> u \<and> u < 1"
    have "(b - a) * u \<le> (b - a) * 1"
      using u assms by (intro mult_left_mono) auto
    moreover have "0 \<le> (b - a) * u" using u assms by simp
    ultimately show "returns (return_prog (a + (b - a) * u)) s' (\<lambda>d s'. a \<le> d \<and> d \<le> b)"
      by simp
  qed
  then show ?thesis by (simp add: random_uniform_def returns_bind)
qed

lemma returns_random_choice:
  "xs \<noteq> [] \<Longrightarrow> returns (random_choice w xs) s (\<lambda>x s'. x \<in> set xs)"
  by (simp add: random_choice_def returns_bind)

lemma returns_random_randint:
  assumes "a \<le> b"
  shows "returns (random_randint w a b) s (\<lambda>n s'. a \<le> n \<and> n \<le> b)"
proof -
  have pos: "0 < nat (b - a + 1)" using assms by simp
  have k: "int (nat (b - a + 1)) = b - a + 1" using assms by simp
  have "a + int (r mod nat (b - a + 1)) \<le> b" for r :: nat
  proof -
    have "r mod nat (b - a + 1) < nat (b - a + 1)"
      using pos by (rule mod_less_divisor)
    then have "int (r mod nat (b - a + 1)) < int (nat (b - a + 1))"
      by (simp only: of_nat_less_iff)
    then show ?thesis using k by linarith
  qed
  then show ?thesis
    by (simp add: random_randint_def returns_bind)
qed

lemma returns_index_py:
  "i < length xs \<Longrightarrow> returns (index_py xs i) s (\<lambda>x s'. x = xs ! i)"
  by (simp add: index_py_def)

lemma returns_random_option_value:
  "q_options q \<noteq> [] \<Longrightarrow> returns (random_option_value w q) s (\<lambda>v s'. True)"
  by (simp add: random_option_value_def returns_bind random_choice_def index_py_def)

lemma returns_fallback_value: "returns (fallback_value w q) s (\<lambda>v s'. True)"
proof -
  have 1: "returns (random_choice w [''yes'', ''no'']) s (\<lambda>v s'. True)"
    by (rule returns_mono [OF returns_random_choice]) simp_all
  have 2: "q_options q \<noteq> [] \<Longrightarrow> returns (random_option_value w q) s (\<lambda>v s'. True)"
    by (rule returns_random_option_value)
  have 3: "returns (bind_prog (random_randint w 3 7) (\<lambda>n. return_prog (str_int n))) s (\<lambda>v s'. True)"
    by (simp add: returns_bind random_randint_def)
  have 4: "returns (random_choice w fallback_phrases) s (\<lambda>v s'. True)"
    by (rule returns_mono [OF returns_random_choice]) (simp_all add: fallback_phrases_def)
  show ?thesis
  proof (cases "q_type q = ''yes-no''")
    case True
    then have "fallback_value w q = random_choice w [''yes'', ''no'']"
      by (simp add: fallback_value_def)
    then show ?thesis using 1 by (simp only:)
  next
    case F1: False
    show ?thesis
    proof (cases "q_type q \<in> set [''single-choice'', ''multiple-choice''] \<and> q_options q \<noteq> []")
      case True
      have "fallback_value w q = random_option_value w q"
        by (simp only: fallback_value_def if_not_P [OF F1] if_P [OF True])
      then show ?thesis using 2 True by simp
    next
      case F2: False
      show ?thesis
      proof (cases "q_type q = ''rating''")
        case True
        have "fallback_value w q =
            bind_prog (random_randint w 3 7) (\<lambda>n. return_prog (str_int n))"
          by (simp only: fallback_value_def if_not_P [OF F1] if_not_P [OF F2] if_P [OF True])
        then show ?thesis using 3 by (simp only:)
      next
        case F3: False
        have "fallback_value w q = random_choice w fallback_phrases"
          by (simp only: fallback_value_def if_not_P [OF F1] if_not_P [OF F2] if_not_P [OF F3])
        then show ?thesis using 4 by (simp only:)
      qed
    qed
  qed
qed

lemma returns_fallback:
  "returns (generate_fallback_answer w q) s
     (\<lambda>a s'. a = \<lparr>question_id = q_id q, answer_value = answer_value a, confidence = 0.3,
           reasoning = PStr ''Fallback answer due to API failure''\<rparr>)"
  unfolding generate_fallback_answer_def returns_bind
  by (rule returns_mono [OF returns_fallback_value]) simp

lemma returns_add_uncertainty: "returns (add_uncertainty w v) s (\<lambda>t s'. True)"
  unfolding add_uncertainty_def returns_bind
proof (rule returns_mono [OF returns_random_random])
  fix u :: real and s'
  have "returns (random_choice w uncertainty_patterns) s' (\<lambda>x s''. True)"
    by (rule returns_mono [OF returns_random_choice]) (simp_all add: uncertainty_patterns_def)
  then show "returns (if u < 0.3
       then bind_prog (random_choice w uncertainty_patterns) (\<lambda>pattern.
              return_prog (pattern @ '' '' @ lower v))
       else return_prog v) s' (\<lambda>t s'. True)"
    by (simp add: returns_bind)
qed

lemma returns_add_hedging: "returns (add_hedging w v) s (\<lambda>t s'. True)"
  unfolding add_hedging_def returns_bind
proof (rule returns_mono [OF returns_random_random])
  fix u :: real and s'
  have "returns (random_choice w hedging_patterns) s' (\<lambda>x s''. True)"
    by (rule returns_mono [OF returns_random_choice]) (simp_all add: hedging_patterns_def)
  then show "returns (if u < 0.2
       then bind_prog (random_choice w hedging_patterns) (\<lambda>hedge.
              return_prog (v @ '', '' @ hedge))
       else return_prog v) s' (\<lambda>t s'. True)"
    by (simp add: returns_bind)
qed

lemma returns_humanize_value: "returns (humanize_value w v q) s (\<lambda>v' s'. True)"
proof (cases v)
  case (PStr t)
  have "returns (bind_prog (add_uncertainty w t) (\<lambda>t1.
               bind_prog (add_hedging w t1) (\<lambda>t2. return_prog (PStr t2)))) s (\<lambda>v' s'. True)"
    unfolding returns_bind
    by (rule returns_mono [OF returns_add_uncertainty])
       (simp add: returns_mono [OF returns_add_hedging])
  then show ?thesis using PStr by (simp add: humanize_value_def)
qed (simp_all add: humanize_value_def)

lemma returns_make_answer_human_like:
  "returns (make_answer_human_like w a q) s
     (\<lambda>a' s'. \<exists>d. 0.1 \<le> d \<and> d \<le> 0.3 \<and>
        a' = a\<lparr>answer_value := answer_value a', confidence := max 0.2 (confidence a - d)\<rparr>)"
  unfolding make_answer_human_like_def returns_bind
proof (rule returns_mono [OF returns_humanize_value])
  fix v s'
  have u: "returns (random_uniform w 0.1 0.3) s' (\<lambda>d s''. 0.1 \<le> d \<and> d \<le> 0.3)"
    by (rule returns_random_uniform) simp
  show "returns (random_uniform w 0.1 0.3) s'
         (\<lambda>d s''. returns (return_prog (a\<lparr>answer_value := v, confidence := max 0.2 (confidence a - d)\<rparr>)) s''
            (\<lambda>a' s'. \<exists>d. 0.1 \<le> d \<and> d \<le> 0.3 \<and>
        a' = a\<lparr>answer_value := answer_value a', confidence := max 0.2 (confidence a - d)\<rparr>))"
    by (rule returns_mono [OF u]) auto
qed

lemma answer_from_json_id:
  "answer_from_json w q m s = (Inr a, s') \<Longrightarrow> question_id a = q_id q"
  by (auto simp: answer_from_json_def bind_prog_def return_prog_def raise_prog_def
           split: option.splits pyvalue.splits prod.splits sum.splits)

lemma text_path_id:
  "text_path w q r s = (Inr a, s') \<Longrightarrow> question_id a = q_id q"
  by (auto simp: text_path_def bind_prog_def return_prog_def
           split: prod.splits sum.splits)

lemma parse_body_id:
  "parse_body w q response s = (Inr a, s') \<Longrightarrow> question_id a = q_id q"
  by (auto simp: parse_body_def raise_prog_def dest: answer_from_json_id text_path_id
           split: option.splits if_splits)

lemma returns_fallback_id:
  "returns (generate_fallback_answer w q) s (\<lambda>a s'. question_id a = q_id q)"
  by (rule returns_mono [OF returns_fallback]) (metis Answer.select_convs(1))

lemma returns_parse_llm_response:
  "returns (parse_llm_response w q response) s (\<lambda>a s'. question_id a = q_id q)"
proof (cases "parse_body w q response s")
  case (Pair r s1)
  show ?thesis
  proof (cases r)
    case (Inl e)
    then show ?thesis using Pair returns_fallback_id [of w q s1]
      by (simp add: parse_llm_response_def returns_try_except)
  next
    case (Inr a)
    then show ?thesis using Pair parse_body_id [of w q response s a s1]
      by (simp add: parse_llm_response_def returns_try_except)
  qed
qed

lemma consume_outcome_id:
  "consume_outcome w q cost outcome s = (Inr a, s') \<Longrightarrow> question_id a = q_id q"
proof (cases outcome)
  case (Content content)
  assume r: "consume_outcome w q cost outcome s = (Inr a, s')"
  from r Content have
    "parse_llm_response w q content (s\<lparr>total_cost := total_cost s + cost\<rparr>) = (Inr a, s')"
    by (simp add: consume_outcome_def bind_prog_def modify_def)
  with returns_parse_llm_response [of w q content "s\<lparr>total_cost := total_cost s + cost\<rparr>"]
  show ?thesis by (simp add: returns_def)
qed (simp_all add: consume_outcome_def bind_prog_def modify_def raise_prog_def)

lemma generate_openai_answer_id:
  "generate_openai_answer w q ctx s = (Inr a, s') \<Longrightarrow> question_id a = q_id q"
  by (auto simp: generate_openai_answer_def try_except_def bind_prog_def openai_request_def
        raise_prog_def dest: consume_outcome_id split: prod.splits sum.splits)

lemma generate_anthropic_answer_id:
  "generate_anthropic_answer w q ctx s = (Inr a, s') \<Longrightarrow> question_id a = q_id q"
  by (auto simp: generate_anthropic_answer_def try_except_def bind_prog_def anthropic_request_def
        raise_prog_def dest: consume_outcome_id split: prod.splits sum.splits)

lemma select_provider_id:
  "select_provider w q ctx s = (Inr a, s') \<Longrightarrow> question_id a = q_id q"
  by (auto simp: select_provider_def raise_prog_def
        dest: generate_openai_answer_id generate_anthropic_answer_id split: if_splits)

lemma returns_generate_answer_body:
  "returns (generate_answer_body w q ctx) s (\<lambda>a s'. question_id a = q_id q)"
proof (cases "select_provider w q ctx s")
  case (Pair r s1)
  show ?thesis
  proof (cases r)
    case (Inl e)
    then show ?thesis using Pair returns_fallback_id [of w q s1]
      by (simp add: generate_answer_body_def returns_try_except bind_prog_def)
  next
    case (Inr a)
    then show ?thesis using Pair select_provider_id [of w q ctx s a s1]
      by (simp add: generate_answer_body_def returns_try_except bind_prog_def modify_def
            return_prog_def)
  qed
qed

lemma retry_returns_first:
  "body s = (Inr a, s') \<Longrightarrow> retry (Suc left) attempt body s = (Inr a, s')"
  by (simp add: try_except_def)

lemma generate_answer_eq_body:
  "generate_answer w q ctx s = generate_answer_body w q ctx s"
proof -
  from returns_generate_answer_body [of w q ctx s] obtain a s' where
    "generate_answer_body w q ctx s = (Inr a, s')"
    unfolding returns_iff by blast
  then show ?thesis
    by (simp add: generate_answer_def numeral_3_eq_3 try_except_def)
qed

lemma returns_generate_answer:
  "returns (generate_answer w q ctx) s (\<lambda>a s'. question_id a = q_id q)"
  using returns_generate_answer_body [of w q ctx s]
  by (simp add: returns_def generate_answer_eq_body)

lemma returns_gather_Cons:
  "returns (gather (t # ts)) s P =
     (case t s of (r, s') \<Rightarrow> returns (gather ts) s' (\<lambda>rs s''. P (r # rs) s''))"
  by (simp add: returns_def bind_prog_def return_prog_def split: prod.splits sum.splits)

lemma returns_gather:
  "returns (gather (map (\<lambda>q. generate_answer w q ctx) batch)) s
     (\<lambda>rs s'. list_all2 (\<lambda>q r. case r of Inr a \<Rightarrow> question_id a = q_id q | Inl e \<Rightarrow> True) batch rs)"
proof (induction batch arbitrary: s)
  case Nil
  show ?case by simp
next
  case (Cons q batch)
  from returns_generate_answer [of w q ctx s] obtain a s1 where
    g: "generate_answer w q ctx s = (Inr a, s1)" and a: "question_id a = q_id q"
    unfolding returns_iff by blast
  have "returns (gather (map (\<lambda>q. generate_answer w q ctx) batch)) s1
     (\<lambda>rs s'. list_all2 (\<lambda>q r. case r of Inr a \<Rightarrow> question_id a = q_id q | Inl e \<Rightarrow> True)
         (q # batch) (Inr a # rs))"
    by (rule returns_mono [OF Cons.IH]) (simp add: a)
  then show ?case
    using g by (simp only: list.map returns_gather_Cons prod.case)
qed

lemma returns_humanize_results:
  assumes "list_all2 (\<lambda>q r. case r of Inr a \<Rightarrow> question_id a = q_id q | Inl e \<Rightarrow> True)
             (drop j batch) results"
  shows "returns (humanize_results w batch j results answers) s
           (\<lambda>answers' s'. map question_id answers' =
               map question_id answers @ map q_id (drop j batch))"
  using assms
proof (induction results arbitrary: j answers s rule: list.induct)
  case Nil
  from Nil.prems have "drop j batch = []" by (simp only: list_all2_Nil2)
  then have "map question_id answers = map question_id answers @ map q_id (drop j batch)"
    by (simp only: list.map append_Nil2)
  then show ?case by (simp only: humanize_results.simps returns_return)
next
  case (Cons result rest)
  note IH = Cons.IH
  from Cons.prems obtain qj qs where
    d: "drop j batch = qj # qs"
    and hd: "case result of Inr a \<Rightarrow> question_id a = q_id qj | Inl e \<Rightarrow> True"
    and tl: "list_all2 (\<lambda>q r. case r of Inr a \<Rightarrow> question_id a = q_id q | Inl e \<Rightarrow> True) qs rest"
    by (auto simp: list_all2_Cons2)
  from d have j: "j < length batch" and qj: "batch ! j = qj" and qs: "drop (Suc j) batch = qs"
    by (metis drop_all list.distinct(1) not_le, metis nth_via_drop, metis drop_Suc tl_drop list.sel(3))
  have idx: "index_py batch j = return_prog qj"
    using j qj by (simp add: index_py_def)
  have first: "returns (case result of
          Inl e \<Rightarrow> bind_prog (index_py batch j) (generate_fallback_answer w)
        | Inr a \<Rightarrow> return_prog a) s (\<lambda>a s'. question_id a = q_id qj)"
  proof (cases result)
    case (Inl e)
    then show ?thesis
      using returns_fallback_id [of w qj s] by (simp add: idx returns_bind)
  next
    case (Inr a)
    then show ?thesis using hd by simp
  qed
  show ?case
    unfolding humanize_results.simps returns_bind
  proof (rule returns_mono [OF first])
    fix a :: Answer and s1
    assume a: "question_id a = q_id qj"
    show "returns (index_py batch j) s1 (\<lambda>qj' s2.
            returns (make_answer_human_like w a qj') s2 (\<lambda>h s3.
              returns (humanize_results w batch (Suc j) rest (answers @ [h])) s3
                (\<lambda>answers' s'. map question_id answers' =
                   map question_id answers @ map q_id (drop j batch))))"
      unfolding idx returns_return
    proof (rule returns_mono [OF returns_make_answer_human_like])
      fix h s3
      assume "\<exists>d. 0.1 \<le> d \<and> d \<le> 0.3 \<and>
        h = a\<lparr>answer_value := answer_value h, confidence := max 0.2 (confidence a - d)\<rparr>"
      then obtain d where "h = a\<lparr>answer_value := answer_value h, confidence := max 0.2 (confidence a - d)\<rparr>"
        by blast
      then have "question_id h = question_id a"
        by (metis Answer.select_convs(1) Answer.surjective Answer.update_convs(2,3))
      then have h: "question_id h = q_id qj" using a by simp
      have "list_all2 (\<lambda>q r. case r of Inr a \<Rightarrow> question_id a = q_id q | Inl e \<Rightarrow> True)
             (drop (Suc j) batch) rest"
        using tl qs by simp
      from IH [OF this, of "answers @ [h]" s3]
      show "returns (humanize_results w batch (Suc j) rest (answers @ [h])) s3
                (\<lambda>answers' s'. map question_id answers' =
                   map question_id answers @ map q_id (drop j batch))"
        by (simp add: h d qs)
    qed
  qed
qed

lemma returns_pause:
  assumes "\<And>s'. P () s'"
  shows "returns (if c then bind_prog (random_uniform w 1 3) sleep else return_prog ()) s P"
proof (cases c)
  case True
  have "returns (random_uniform w 1 3) s (\<lambda>d s'. returns (sleep d) s' P)"
    by (rule returns_mono [OF returns_random_uniform [of 1 3]])
       (simp_all add: sleep_def modify_def returns_def assms)
  then show ?thesis using True by (simp add: returns_bind)
next
  case False
  then show ?thesis by (simp add: assms)
qed

lemma returns_process_batches:
  "returns (process_batches w questions ctx i answers) s
     (\<lambda>answers' s'. map question_id answers' =
         map question_id answers @ map q_id (drop i questions))"
proof (induction w questions ctx i answers arbitrary: s rule: process_batches.induct)
  case (1 w questions ctx i answers)
  note IH = "1.IH"
  show ?case
  proof (cases "i < length questions")
    case False
    then have "process_batches w questions ctx i answers = return_prog answers"
      by (subst process_batches.simps) (simp only: if_False)
    then show ?thesis using False by simp
  next
    case True
    let ?batch = "take 3 (drop i questions)"
    let ?Q = "\<lambda>answers' (s' :: state). map question_id answers' =
         map question_id answers @ map q_id (drop i questions)"
    have split: "map q_id ?batch @ map q_id (drop (i + 3) questions) = map q_id (drop i questions)"
    proof -
      have "drop (i + 3) questions = drop 3 (drop i questions)"
        by (simp add: add.commute)
      then show ?thesis
        by (simp only: map_append [symmetric] append_take_drop_id)
    qed
    have "returns (gather (map (\<lambda>q. generate_answer w q ctx) ?batch)) s
       (\<lambda>batch_answers s1.
          returns (humanize_results w ?batch 0 batch_answers answers) s1
            (\<lambda>answers' s2.
               returns (if i + 3 < length questions
                        then bind_prog (random_uniform w 1 3) sleep else return_prog ()) s2
                 (\<lambda>_ s3. returns (process_batches w questions ctx (i + 3) answers') s3 ?Q)))"
    proof (rule returns_mono [OF returns_gather])
      fix rs :: "(exn + Answer) list" and s1
      assume "list_all2 (\<lambda>q r. case r of Inr a \<Rightarrow> question_id a = q_id q | Inl e \<Rightarrow> True) ?batch rs"
      then have rs: "list_all2 (\<lambda>q r. case r of Inr a \<Rightarrow> question_id a = q_id q | Inl e \<Rightarrow> True)
                   (drop 0 ?batch) rs"
        by simp
      show "returns (humanize_results w ?batch 0 rs answers) s1
            (\<lambda>answers' s2.
               returns (if i + 3 < length questions
                        then bind_prog (random_uniform w 1 3) sleep else return_prog ()) s2
                 (\<lambda>_ s3. returns (process_batches w questions ctx (i + 3) answers') s3 ?Q))"
      proof (rule returns_mono [OF returns_humanize_results [OF rs]])
        fix answers' :: "Answer list" and s2
        assume "map question_id answers' = map question_id answers @ map q_id (drop 0 ?batch)"
        then have a': "map question_id answers' = map question_id answers @ map q_id ?batch"
          by simp
        show "returns (if i + 3 < length questions
                        then bind_prog (random_uniform w 1 3) sleep else return_prog ()) s2
                 (\<lambda>_ s3. returns (process_batches w questions ctx (i + 3) answers') s3 ?Q)"
        proof (rule returns_pause)
          fix s3
          show "returns (process_batches w questions ctx (i + 3) answers') s3 ?Q"
            by (rule returns_mono [OF IH [OF True]]) (simp add: a' split)
        qed
      qed
    qed
    then show ?thesis
      by (subst process_batches.simps) (simp only: if_P [OF True] returns_bind)
  qed
qed

section \<open>Provider selection and the brace span\<close>

lemma select_provider_no_clients:
  "\<not> openai_client s \<Longrightarrow> \<not> anthropic_client s \<Longrightarrow>
     select_provider w q ctx s = (Inl NoClientsAvailable, s)"
  by (simp add: select_provider_def raise_prog_def)




text \<open>A text that lacks one of the two braces goes to the free-text extraction.\<close>

lemma brace_free_text_path:
  "CHR ''{'' \<notin> set raw \<or> CHR ''}'' \<notin> set raw \<Longrightarrow>
     parse_body w q (Some raw) = text_path w q raw"
  by (auto simp: parse_body_def)

section \<open>Substring search\<close>

lemma str_contains_sublist: "str_contains sub t = sublist sub t"
  by (induction t) (simp_all add: sublist_Cons_right)

lemma sublist_trans: "sublist xs ys \<Longrightarrow> sublist ys zs \<Longrightarrow> sublist xs zs"
  unfolding sublist_def by (metis append.assoc)

text \<open>
  \<^verbatim>\<open>word in text.lower()\<close> is a substring test, and the affirmative words are tested first:
  a text in which "disagree" or "incorrect" occurs also holds "agree" or "correct", so
  the yes-no branch answers "yes" and never reaches these two negative words.
\<close>

lemma shadowed_negative_words:
  assumes "q_type q = ''yes-no''"
    and "str_contains ''disagree'' (lower (strip raw)) \<or>
         str_contains ''incorrect'' (lower (strip raw))"
  shows "extract_answer_from_text w q raw s = (Inr ''yes'', s)"
proof -
  have a: "sublist ''agree'' ''disagree''" by code_simp
  have c: "sublist ''correct'' ''incorrect''" by code_simp
  from assms(2) have "str_contains ''agree'' (lower (strip raw)) \<or>
      str_contains ''correct'' (lower (strip raw))"
    unfolding str_contains_sublist
    using sublist_trans [OF a] sublist_trans [OF c] by blast
  then have "list_ex (\<lambda>word. str_contains word (lower (strip raw))) affirmative_words"
    by (auto simp: affirmative_words_def)
  then show ?thesis
    using assms(1) by (simp add: extract_answer_from_text_def return_prog_def Let_def)
qed

section \<open>The claims\<close>

text \<open>
  C1. For every sequence of Questions (any length, any mix of types), whatever the
  providers reply and whatever the random generator yields, \<open>process_poll_questions\<close>
  returns normally a list of Answers of the same length as the input, and the i-th
  Answer's \<open>question_id\<close> is the i-th Question's \<open>id\<close> (so the order is the input order),
  whether an Answer came from a provider, from the free-text path or from the Fallback
  Synthesizer.
\<close>

theorem process_poll_questions_one_answer_per_question:
  "\<exists>answers s'. process_poll_questions w questions ctx s = (Inr answers, s') \<and>
      length answers = length questions \<and>
      map question_id answers = map q_id questions"
proof -
  from returns_process_batches [of w questions ctx 0 "[]" s] obtain answers s' where
    r: "process_batches w questions ctx 0 [] s = (Inr answers, s')"
    and ids: "map question_id answers =
                map question_id ([] :: Answer list) @ map q_id (drop 0 questions)"
    unfolding returns_iff by blast
  from ids have m: "map question_id answers = map q_id questions" by simp
  then have "length (map question_id answers) = length (map q_id questions)" by (simp only:)
  then have "length answers = length questions" by (simp only: length_map)
  with r m show ?thesis by (simp add: process_poll_questions_def)
qed

text \<open>
  C2. For every Answer whose confidence is in \<open>[0, 1]\<close>, \<open>make_answer_human_like\<close> returns
  normally and the confidence of the Answer it returns lies in \<open>[0.2, 1.0]\<close>.
\<close>

theorem humanizer_confidence_range:
  assumes "0 \<le> confidence a" and "confidence a \<le> 1"
  shows "\<exists>a' s'. make_answer_human_like w a q s = (Inr a', s') \<and>
           0.2 \<le> confidence a' \<and> confidence a' \<le> 1"
proof -
  from returns_make_answer_human_like [of w a q s] obtain a' s' d where
    r: "make_answer_human_like w a q s = (Inr a', s')"
    and d: "0.1 \<le> d" "d \<le> 0.3"
    and a': "a' = a\<lparr>answer_value := answer_value a', confidence := max 0.2 (confidence a - d)\<rparr>"
    unfolding returns_iff by blast
  have "confidence a' = max 0.2 (confidence a - d)"
    by (subst a') simp
  then have "0.2 \<le> confidence a' \<and> confidence a' \<le> 1"
    using assms d by simp
  with r show ?thesis by blast
qed

theorem humanizer_confidence_range_witness:
  "0 \<le> confidence parsed_answer \<and> confidence parsed_answer \<le> 1 \<and>
   (\<exists>a' s'. make_answer_human_like quiet_world parsed_answer pizza_question openai_state
               = (Inr a', s') \<and>
            0.2 \<le> confidence a' \<and> confidence a' \<le> 1)"
  using humanizer_confidence_range [of parsed_answer quiet_world pizza_question openai_state]
  by (simp add: parsed_answer_def)

text \<open>
  C3, as stated: for every Answer the confidence after \<open>make_answer_human_like\<close> is at most
  the confidence before. It fails for an Answer of confidence 0.1 (a provider's JSON
  object may carry it): the floor \<^verbatim>\<open>max(0.2, ...)\<close> lifts it to 0.2.
\<close>

theorem humanizer_lifts_low_confidence:
  "fst (make_answer_human_like quiet_world unsure_answer pizza_question openai_state)
     = Inr (unsure_answer\<lparr>confidence := 0.2\<rparr>) \<and>
   \<not> (0.2 \<le> confidence unsure_answer)"
  by (simp add: make_answer_human_like_def humanize_value_def random_uniform_def
        random_random_def next_entropy_def bind_prog_def return_prog_def
        unsure_answer_def pizza_question_def quiet_world_def openai_state_def)

text \<open>
  C3, amended: for every Answer whose confidence is at least 0.2 the confidence after
  \<open>make_answer_human_like\<close> is at most the confidence before; an Answer whose confidence
  is below 0.2 comes out with confidence exactly 0.2.
\<close>

theorem humanizer_confidence_floor:
  "\<exists>a' s'. make_answer_human_like w a q s = (Inr a', s') \<and>
      (0.2 \<le> confidence a \<longrightarrow> confidence a' \<le> confidence a) \<and>
      (confidence a < 0.2 \<longrightarrow> confidence a' = 0.2)"
proof -
  from returns_make_answer_human_like [of w a q s] obtain a' s' d where
    r: "make_answer_human_like w a q s = (Inr a', s')"
    and d: "0.1 \<le> d" "d \<le> 0.3"
    and a': "a' = a\<lparr>answer_value := answer_value a', confidence := max 0.2 (confidence a - d)\<rparr>"
    unfolding returns_iff by blast
  have "confidence a' = max 0.2 (confidence a - d)"
    by (subst a') simp
  then have "(0.2 \<le> confidence a \<longrightarrow> confidence a' \<le> confidence a) \<and>
      (confidence a < 0.2 \<longrightarrow> confidence a' = 0.2)"
    using d by (simp add: max_def)
  with r show ?thesis by blast
qed

theorem humanizer_confidence_floor_witness:
  "0.2 \<le> confidence parsed_answer \<and> confidence unsure_answer < 0.2 \<and>
   (\<exists>a' s'. make_answer_human_like quiet_world parsed_answer pizza_question openai_state
               = (Inr a', s') \<and> confidence a' \<le> confidence parsed_answer) \<and>
   (\<exists>a' s'. make_answer_human_like quiet_world unsure_answer pizza_question openai_state
               = (Inr a', s') \<and> confidence a' = 0.2)"
  using humanizer_confidence_floor [of quiet_world parsed_answer pizza_question openai_state]
    humanizer_confidence_floor [of quiet_world unsure_answer pizza_question openai_state]
  by (simp add: parsed_answer_def unsure_answer_def)

text \<open>
  C4. The claim: each provider call is retried, up to 3 attempts with exponential
  backoff, before the Fallback Synthesizer's answer is substituted. The decorator wraps
  \<open>generate_answer\<close>, whose body catches every exception itself, so the decorator never
  sees one (\<open>generate_answer_eq_body\<close>). Evaluated on a service whose first OpenAI request
  fails and whose second one would succeed: one request is issued, no sleep happens, and
  the fallback answer is returned.
\<close>

theorem generate_answer_gives_up_after_one_attempt:
  "generate_answer flaky_world pizza_question None openai_state =
     (Inr \<lparr>question_id = 1, answer_value = PStr ''yes'', confidence = 0.3,
           reasoning = PStr ''Fallback answer due to API failure''\<rparr>,
      \<lparr>openai_client = True, anthropic_client = False, total_cost = 0, request_count = 0,
       rng_pos = 1, api_calls = 1, slept = []\<rparr>) \<and>
   openai_create flaky_world 1 get_system_prompt (build_prompt pizza_question None)
     = Content (Some ''yes'')"
  by (simp add: generate_answer_eq_body generate_answer_body_def select_provider_def
        generate_openai_answer_def openai_request_def consume_outcome_def
        generate_fallback_answer_def fallback_value_def random_choice_def next_entropy_def
        try_except_def bind_prog_def return_prog_def raise_prog_def
        flaky_world_def openai_state_def pizza_question_def)




text \<open>
  C6. The claim: for a yes-no Question the free-text extraction returns "yes" when the
  text contains an affirmative token, and "no" when it contains a negative token
  (no/false/disagree/incorrect) and no affirmative token. The text "I disagree" consists
  of the tokens "I" and "disagree": a negative token and no affirmative one. Evaluated on
  it, the extraction returns "yes", and so does the Parser (with confidence 0.7), because
  the substring "agree" is found first.
\<close>

theorem disagree_token_reads_as_yes:
  "extract_answer_from_text w pizza_question ''I disagree'' s = (Inr ''yes'', s) \<and>
   parse_llm_response w pizza_question (Some ''I disagree'') s
     = (Inr \<lparr>question_id = 1, answer_value = PStr ''yes'', confidence = 0.7,
              reasoning = PStr ''Parsed from text response''\<rparr>, s)"
proof -
  have "list_ex (\<lambda>word. str_contains word (lower (strip ''I disagree''))) affirmative_words"
    by code_simp
  then have e: "extract_answer_from_text w pizza_question ''I disagree'' s = (Inr ''yes'', s)"
    by (simp add: extract_answer_from_text_def pizza_question_def return_prog_def Let_def)
  have "parse_body w pizza_question (Some ''I disagree'') = text_path w pizza_question ''I disagree''"
    by (rule brace_free_text_path) simp
  then have "parse_body w pizza_question (Some ''I disagree'') s
     = (Inr \<lparr>question_id = 1, answer_value = PStr ''yes'', confidence = 0.7,
              reasoning = PStr ''Parsed from text response''\<rparr>, s)"
    using e by (simp add: text_path_def bind_prog_def return_prog_def pizza_question_def)
  then have "parse_llm_response w pizza_question (Some ''I disagree'') s
     = (Inr \<lparr>question_id = 1, answer_value = PStr ''yes'', confidence = 0.7,
              reasoning = PStr ''Parsed from text response''\<rparr>, s)"
    by (simp add: parse_llm_response_def try_except_def)
  with e show ?thesis by (simp only: simp_thms)
qed




text \<open>
  C8. When neither client is configured, \<open>generate_answer\<close> returns, for every Question,
  exactly what \<open>generate_fallback_answer\<close> returns: an Answer with reasoning
  "Fallback answer due to API failure" and confidence 0.3.
\<close>

theorem no_credentials_always_fallback:
  assumes "\<not> openai_client s" and "\<not> anthropic_client s"
  shows "generate_answer w q ctx s = generate_fallback_answer w q s \<and>
         (\<exists>a s'. generate_answer w q ctx s = (Inr a, s') \<and> confidence a = 0.3 \<and>
            reasoning a = PStr ''Fallback answer due to API failure'')"
proof -
  have "generate_answer_body w q ctx s = generate_fallback_answer w q s"
    using select_provider_no_clients [OF assms, of w q ctx]
    by (simp add: generate_answer_body_def try_except_def bind_prog_def)
  then have eq: "generate_answer w q ctx s = generate_fallback_answer w q s"
    by (simp only: generate_answer_eq_body)
  from returns_fallback [of w q s] obtain a s' where
    f: "generate_fallback_answer w q s = (Inr a, s')"
    and a: "a = \<lparr>question_id = q_id q, answer_value = answer_value a, confidence = 0.3,
           reasoning = PStr ''Fallback answer due to API failure''\<rparr>"
    unfolding returns_iff by blast
  from a have "confidence a = 0.3 \<and> reasoning a = PStr ''Fallback answer due to API failure''"
    by (metis Answer.select_convs(3,4))
  with eq f show ?thesis by simp
qed

theorem no_credentials_always_fallback_witness:
  "\<not> openai_client degraded_state \<and> \<not> anthropic_client degraded_state \<and>
   generate_answer quiet_world pizza_question None degraded_state
     = generate_fallback_answer quiet_world pizza_question degraded_state \<and>
   (\<exists>a s'. generate_answer quiet_world pizza_question None degraded_state = (Inr a, s') \<and>
      confidence a = 0.3 \<and> reasoning a = PStr ''Fallback answer due to API failure'')"
proof -
  have h: "\<not> openai_client degraded_state" "\<not> anthropic_client degraded_state"
    by (simp_all add: degraded_state_def)
  from no_credentials_always_fallback [OF h, of quiet_world pizza_question None] h
  show ?thesis by blast
qed

text \<open>
  C9. For every Question, of any type and with any options list (an empty one
  included), \<open>generate_fallback_answer\<close> returns normally (no exception), and the Answer
  it returns carries the Question's id, confidence exactly 0.3 and the reasoning
  "Fallback answer due to API failure".
\<close>

theorem fallback_never_raises:
  "\<exists>a s'. generate_fallback_answer w q s = (Inr a, s') \<and>
      question_id a = q_id q \<and> confidence a = 0.3 \<and>
      reasoning a = PStr ''Fallback answer due to API failure''"
proof -
  from returns_fallback [of w q s] obtain a s' where
    "generate_fallback_answer w q s = (Inr a, s')"
    "a = \<lparr>question_id = q_id q, answer_value = answer_value a, confidence = 0.3,
           reasoning = PStr ''Fallback answer due to API failure''\<rparr>"
    unfolding returns_iff by blast
  then show ?thesis
    by (metis Answer.select_convs(1,3,4))
qed

text \<open>
  C10. \<open>get_stats\<close> never raises \<^verbatim>\<open>ZeroDivisionError\<close>: it returns the statistics, whose
  \<open>avg_cost_per_request\<close> is \<^verbatim>\<open>round(total_cost / max(1, request_count), 4)\<close>; when
  \<open>request_count\<close> is 0 this is \<^verbatim>\<open>round(total_cost, 4)\<close>, the reported \<open>total_cost\<close>.
\<close>

theorem get_stats_no_division_by_zero:
  "\<exists>st. get_stats s = Inr st \<and>
      avg_cost_per_request st =
        py_round (total_cost s / of_int (max 1 (request_count s))) 4 \<and>
      (request_count s = 0 \<longrightarrow>
         avg_cost_per_request st = py_round (total_cost s) 4 \<and>
         avg_cost_per_request st = stats_total_cost st)"
  by (simp add: get_stats_def truediv_def max_def)

theorem get_stats_no_division_by_zero_witness:
  "request_count billed_state = 0 \<and>
   (\<exists>st. get_stats billed_state = Inr st \<and>
      avg_cost_per_request st = py_round (total_cost billed_state) 4 \<and>
      avg_cost_per_request st = stats_total_cost st)"
  using get_stats_no_division_by_zero [of billed_state]
  by (simp add: billed_state_def)

end
